theory Spec2Isabelle
  imports Complex_Main
begin

section \<open>JavaScript values used by the dashboard script\<close>

text \<open>
  The model follows \<^verbatim>\<open>static/diagram.js\<close>; the second source file repeats its first 446
  lines verbatim and then adds export, history and network features that no definition
  below depends on.

  A number-valued property of a parsed JSON object is \<open>Some x\<close> when the property holds
  the number \<open>x\<close> and \<open>None\<close> when the property is absent (\<^verbatim>\<open>undefined\<close>). Arithmetic
  on \<^verbatim>\<open>undefined\<close> gives \<^verbatim>\<open>NaN\<close>, which is \<open>None\<close> as well, and every comparison with
  it is false. Numbers are taken as exact reals: rounding of IEEE doubles is not modelled.
\<close>

type_synonym number = "real option"

definition gt :: "number \<Rightarrow> real \<Rightarrow> bool" where
  "gt x c = (case x of None \<Rightarrow> False | Some v \<Rightarrow> v > c)"

definition lt :: "number \<Rightarrow> real \<Rightarrow> bool" where
  "lt x c = (case x of None \<Rightarrow> False | Some v \<Rightarrow> v < c)"

definition times :: "number \<Rightarrow> real \<Rightarrow> number" where
  "times x c = (case x of None \<Rightarrow> None | Some v \<Rightarrow> Some (v * c))"

text \<open>Decimal digits of a natural number, most significant first.\<close>

fun dec :: "nat \<Rightarrow> string" where
  "dec n = (if n < 10 then [''0123456789'' ! n]
            else dec (n div 10) @ [''0123456789'' ! (n mod 10)])"

declare dec.simps [simp del]

text \<open>
  \<^verbatim>\<open>Number.prototype.toFixed\<close> on a finite number below \<open>10^21\<close> in magnitude: the sign is
  split off, \<open>n\<close> is the integer nearest to \<open>x * 10^d\<close> (the larger one on a tie), and its
  digits are padded with zeros to at least \<open>d + 1\<close> places before the point is inserted.
\<close>

definition toFixed :: "real \<Rightarrow> nat \<Rightarrow> string" where
  "toFixed x d =
     (let s = (if x < 0 then ''-'' else '''');
          n = nat \<lfloor>\<bar>x\<bar> * 10 ^ d + 1 / 2\<rfloor>;
          m = dec n;
          m' = replicate (Suc d - length m) (CHR ''0'') @ m;
          k = length m' - d
      in if d = 0 then s @ m' else s @ take k m' @ ''.'' @ drop k m')"

text \<open>
  \<^verbatim>\<open>(e).toFixed(d)\<close> where \<open>e\<close> is a number or \<^verbatim>\<open>NaN\<close>. Where the script calls \<^verbatim>\<open>toFixed\<close>
  directly on a property that may be absent, the caller below models the \<^verbatim>\<open>TypeError\<close>.
\<close>

definition fixed :: "number \<Rightarrow> nat \<Rightarrow> string" where
  "fixed x d = (case x of None \<Rightarrow> ''NaN'' | Some v \<Rightarrow> toFixed v d)"

text \<open>\<^verbatim>\<open>String.prototype.toUpperCase\<close>, on ASCII letters.\<close>

definition toUpperCase :: "string \<Rightarrow> string" where
  "toUpperCase s =
     map (\<lambda>c. let n = (of_char c :: nat)
               in if 97 \<le> n \<and> n \<le> 122 then char_of (n - 32) else c) s"

text \<open>\<^verbatim>\<open>Math.min(...data)\<close> and \<^verbatim>\<open>Math.max(...data)\<close> on a non-empty array of numbers.\<close>

definition Math_min :: "real list \<Rightarrow> real" where
  "Math_min data = fold min (tl data) (hd data)"

definition Math_max :: "real list \<Rightarrow> real" where
  "Math_max data = fold max (tl data) (hd data)"

section \<open>Data model\<close>

text \<open>The simulation result as the backend's JSON carries it; any property may be absent.\<close>

record sim_result =
  avg_max_queue :: number
  avg_waiting_time :: number
  avg_service_rate :: number
  avg_accidents_per_hour :: number
  traffic_level :: "string option"
  traffic_level_description :: "string option"
  prob_light_traffic :: number
  prob_moderate_jam :: number
  prob_severe_jam :: number
  all_max_queues :: "real list option"
  sample_queue_history :: "real list option"

text \<open>
  The form controls. Each numeric field holds what \<^verbatim>\<open>parseInt\<close> or \<^verbatim>\<open>parseFloat\<close> returns
  for the control's value, \<open>None\<close> standing for \<^verbatim>\<open>NaN\<close>.
\<close>

record form =
  scenarioSelect :: string
  simCount :: "int option"
  rushMin :: "int option"
  rushMax :: "int option"
  normalMin :: "int option"
  normalMax :: "int option"
  greenCapacity :: "int option"
  accidentProb :: number
  rushDuration :: "int option"

record custom_params =
  rush_hour_rate :: "int option \<times> int option"
  normal_rate :: "int option \<times> int option"
  green_capacity_normal :: "int option"
  green_capacity_accident :: int
  accident_probability :: number
  accident_duration_range :: "int \<times> int"
  rush_hour_minutes :: "int option"
  simulation_minutes :: int
  simulations :: "int option"

datatype params = Custom custom_params | Preset "int option"

datatype body =
    Enhanced params
  | Simulations "int option"
  | Compare "string list" "int option"

datatype origin = RunSimulation | CompareScenarios

record request =
  req_origin :: origin
  req_url :: string
  req_body :: body

datatype label = Text string | Index nat

record chart =
  chart_canvas :: string
  chart_type :: string
  chart_labels :: "label list"
  chart_datasets :: "(string \<times> number list) list"

record recommendation =
  rec_type :: string
  rec_title :: string
  rec_text :: string

text \<open>
  A child of the recommendations container: markup assigned through \<^verbatim>\<open>innerHTML\<close>, or a
  \<^verbatim>\<open>div\<close> built with \<^verbatim>\<open>createElement\<close> (its class name and its inner markup).
\<close>

datatype node = Markup string | Div string string

text \<open>
  The page: the form, the displayed elements the script writes, the three global chart
  handles, the chart instances that are alive (constructed and not destroyed), the
  notices raised with \<^verbatim>\<open>alert\<close>, and the requests sent and not yet settled.
\<close>

record page =
  inputs :: form
  loading_display :: string
  results_display :: string
  comparisonResults_display :: string
  btn_disabled :: bool
  btnText :: string
  avgQueue :: string
  avgWait :: string
  serviceRate :: string
  trafficLevelCard_className :: string
  trafficLevel :: string
  trafficDesc :: string
  probLight_width :: string
  probLightVal :: string
  probModerate_width :: string
  probModerateVal :: string
  probSevere_width :: string
  probSevereVal :: string
  recommendationsList :: "node list"
  comparisonTable :: string
  histogramChart :: "nat option"
  timeSeriesChart :: "nat option"
  comparisonChart :: "nat option"
  charts :: "(nat \<times> chart) list"
  next_chart :: nat
  alerts :: "string list"
  in_flight :: "request list"

text \<open>How a call ends: it returns, or an exception leaves it (the state written so far stays).\<close>

datatype completion = Returned | Threw

definition stmt :: "(page \<Rightarrow> page) \<Rightarrow> page \<Rightarrow> completion \<times> page" where
  "stmt f pg = (Returned, f pg)"

definition throw :: "page \<Rightarrow> completion \<times> page" where
  "throw pg = (Threw, pg)"

definition seq ::
  "(page \<Rightarrow> completion \<times> page) \<Rightarrow> (page \<Rightarrow> completion \<times> page) \<Rightarrow> page \<Rightarrow> completion \<times> page" where
  "seq f g pg = (case f pg of (Returned, pg') \<Rightarrow> g pg' | (Threw, pg') \<Rightarrow> (Threw, pg'))"

section \<open>getParameters\<close>

definition getParameters :: "form \<Rightarrow> params" where
  "getParameters f =
     (let scenario = scenarioSelect f; simCount = simCount f
      in if scenario = ''custom'' then
           Custom \<lparr> rush_hour_rate = (rushMin f, rushMax f),
                    normal_rate = (normalMin f, normalMax f),
                    green_capacity_normal = greenCapacity f,
                    green_capacity_accident = 2,
                    accident_probability = times (accidentProb f) (1 / 100),
                    accident_duration_range = (5, 15),
                    rush_hour_minutes = rushDuration f,
                    simulation_minutes = 60,
                    simulations = simCount \<rparr>
         else Preset simCount)"

definition params_simulations :: "params \<Rightarrow> int option" where
  "params_simulations p = (case p of Custom c \<Rightarrow> simulations c | Preset n \<Rightarrow> n)"

section \<open>createHistogram: the binning loop and the chart slot\<close>

definition bins :: nat where
  "bins = 20"

text \<open>
  Lines 153 to 167. The loop runs over \<open>i = 0, ..., bins - 1\<close> and fills the labels and the
  counts. On an empty array \<^verbatim>\<open>Math.min()\<close> is \<^verbatim>\<open>Infinity\<close>, every bound is \<^verbatim>\<open>NaN\<close> and
  every count is 0.
\<close>

definition histogram_labels :: "real list \<Rightarrow> string list" where
  "histogram_labels data =
     (if data = [] then replicate bins ''NaN-NaN''
      else
        let mn = Math_min data; mx = Math_max data; binWidth = (mx - mn) / real bins
        in map (\<lambda>i. let binStart = mn + real i * binWidth; binEnd = binStart + binWidth
                    in toFixed binStart 0 @ ''-'' @ toFixed binEnd 0) [0..<bins])"

definition histogram_counts :: "real list \<Rightarrow> nat list" where
  "histogram_counts data =
     (if data = [] then replicate bins 0
      else
        let mn = Math_min data; mx = Math_max data; binWidth = (mx - mn) / real bins
        in map (\<lambda>i. let binStart = mn + real i * binWidth; binEnd = binStart + binWidth
                    in length (filter (\<lambda>x. x \<ge> binStart \<and> x < binEnd) data)) [0..<bins])"

text \<open>\<^verbatim>\<open>chart.destroy()\<close> detaches the instance; \<^verbatim>\<open>new Chart(ctx, config)\<close> attaches a fresh one.\<close>

definition destroy :: "nat \<Rightarrow> page \<Rightarrow> page" where
  "destroy h pg = pg\<lparr>charts := filter (\<lambda>(i, c). i \<noteq> h) (charts pg)\<rparr>"

definition new_Chart :: "chart \<Rightarrow> page \<Rightarrow> nat \<times> page" where
  "new_Chart c pg =
     (next_chart pg,
      pg\<lparr>charts := charts pg @ [(next_chart pg, c)], next_chart := Suc (next_chart pg)\<rparr>)"

definition discard_histogram :: "page \<Rightarrow> page" where
  "discard_histogram pg = (case histogramChart pg of None \<Rightarrow> pg | Some h \<Rightarrow> destroy h pg)"

definition createHistogram :: "real list option \<Rightarrow> page \<Rightarrow> completion \<times> page" where
  "createHistogram data =
     seq (stmt discard_histogram)
       (case data of
          None \<Rightarrow> throw
        | Some xs \<Rightarrow>
            stmt (\<lambda>pg.
              let (h, pg') =
                    new_Chart \<lparr> chart_canvas = ''histogramChart'', chart_type = ''bar'',
                                chart_labels = map Text (histogram_labels xs),
                                chart_datasets =
                                  [(''Frequency'', map (\<lambda>n. Some (real n)) (histogram_counts xs))] \<rparr>
                      pg
              in pg'\<lparr>histogramChart := Some h\<rparr>))"

section \<open>createTimeSeries\<close>

definition discard_timeSeries :: "page \<Rightarrow> page" where
  "discard_timeSeries pg = (case timeSeriesChart pg of None \<Rightarrow> pg | Some h \<Rightarrow> destroy h pg)"

definition createTimeSeries :: "real list option \<Rightarrow> page \<Rightarrow> completion \<times> page" where
  "createTimeSeries data =
     seq (stmt discard_timeSeries)
       (case data of
          None \<Rightarrow> throw
        | Some xs \<Rightarrow>
            stmt (\<lambda>pg.
              let labels = map (\<lambda>i. Index (i + 1)) [0..<length xs];
                  (h, pg') =
                    new_Chart \<lparr> chart_canvas = ''timeSeriesChart'', chart_type = ''line'',
                                chart_labels = labels,
                                chart_datasets = [(''Queue Length'', map Some xs)] \<rparr>
                      pg
              in pg'\<lparr>timeSeriesChart := Some h\<rparr>))"

section \<open>generateRecommendations\<close>

text \<open>
  The pictographs that open the titles and the button captions are given by their UTF-8
  bytes.
\<close>

definition siren :: string where
  "siren = [CHR 0xF0, CHR 0x9F, CHR 0x9A, CHR 0xA8]"

definition warning_sign :: string where
  "warning_sign = [CHR 0xE2, CHR 0x9A, CHR 0xA0, CHR 0xEF, CHR 0xB8, CHR 0x8F]"

definition stopwatch :: string where
  "stopwatch = [CHR 0xE2, CHR 0x8F, CHR 0xB1, CHR 0xEF, CHR 0xB8, CHR 0x8F]"

definition ambulance :: string where
  "ambulance = [CHR 0xF0, CHR 0x9F, CHR 0x9A, CHR 0x91]"

definition bar_chart :: string where
  "bar_chart = [CHR 0xF0, CHR 0x9F, CHR 0x93, CHR 0x8A]"

definition check_mark :: string where
  "check_mark = [CHR 0xE2, CHR 0x9C, CHR 0x85]"

definition hourglass :: string where
  "hourglass = [CHR 0xE2, CHR 0x8F, CHR 0xB3]"

definition play_sign :: string where
  "play_sign = [CHR 0xE2, CHR 0x96, CHR 0xB6]"

definition very_high_queue :: "sim_result \<Rightarrow> recommendation" where
  "very_high_queue data =
     \<lparr> rec_type = ''critical'',
       rec_title = siren @ '' Critical: Very High Queue Length'',
       rec_text = ''Average maximum queue of '' @ fixed (avg_max_queue data) 1 @
         '' vehicles is critically high. Consider increasing green light capacity or duration by 30-50%.'' \<rparr>"

definition moderate_congestion :: "sim_result \<Rightarrow> recommendation" where
  "moderate_congestion data =
     \<lparr> rec_type = ''warning'',
       rec_title = warning_sign @ '' Warning: Moderate Congestion'',
       rec_text = ''Queue length of '' @ fixed (avg_max_queue data) 1 @
         '' vehicles indicates congestion. Traffic light optimization could improve flow by 15-25%.'' \<rparr>"

definition low_service_rate :: "sim_result \<Rightarrow> recommendation" where
  "low_service_rate data =
     \<lparr> rec_type = ''critical'',
       rec_title = siren @ '' Critical: Low Service Rate'',
       rec_text = ''Service rate of '' @ fixed (times (avg_service_rate data) 100) 1 @
         ''% indicates system cannot handle current demand. Capacity expansion needed.'' \<rparr>"

definition high_waiting_time :: "sim_result \<Rightarrow> recommendation" where
  "high_waiting_time data =
     \<lparr> rec_type = ''warning'',
       rec_title = stopwatch @ '' High Waiting Time'',
       rec_text = ''Average waiting time of '' @ fixed (avg_waiting_time data) 2 @
         '' minutes is high. Implement adaptive traffic light timing for 20-30% improvement.'' \<rparr>"

definition high_accident_frequency :: "sim_result \<Rightarrow> recommendation" where
  "high_accident_frequency data =
     \<lparr> rec_type = ''info'',
       rec_title = ambulance @ '' High Accident Frequency'',
       rec_text = fixed (avg_accidents_per_hour data) 2 @
         '' accidents per hour detected. Improve road safety measures and emergency response protocols.'' \<rparr>"

definition high_severe_jam :: "sim_result \<Rightarrow> recommendation" where
  "high_severe_jam data =
     \<lparr> rec_type = ''critical'',
       rec_title = bar_chart @ '' High Severe Jam Probability'',
       rec_text = fixed (times (prob_severe_jam data) 100) 1 @
         ''% chance of severe congestion. Immediate intervention needed - consider alternative routes.'' \<rparr>"

text \<open>Lines 257 to 308: the array \<^verbatim>\<open>recommendations\<close> after the five blocks of pushes.\<close>

definition recommendations :: "sim_result \<Rightarrow> recommendation list" where
  "recommendations data =
     (let r0 = [];
          r1 = (if gt (avg_max_queue data) 100 then r0 @ [very_high_queue data]
                else if gt (avg_max_queue data) 60 then r0 @ [moderate_congestion data]
                else r0);
          r2 = (if lt (avg_service_rate data) (7 / 10) then r1 @ [low_service_rate data] else r1);
          r3 = (if gt (avg_waiting_time data) 10 then r2 @ [high_waiting_time data] else r2);
          r4 = (if gt (avg_accidents_per_hour data) 2 then r3 @ [high_accident_frequency data] else r3);
          r5 = (if gt (prob_severe_jam data) (2 / 10) then r4 @ [high_severe_jam data] else r4)
      in r5)"

definition all_clear :: string where
  \<open>all_clear = ''<p style="color: #4CAF50; font-weight: 600;">'' @ check_mark @
     '' No critical issues detected. Traffic flow is optimal.</p>''\<close>

definition recommendation_item :: "recommendation \<Rightarrow> node" where
  "recommendation_item r =
     Div (''recommendation-item '' @ rec_type r)
         (''<strong>'' @ rec_title r @ ''</strong><p>'' @ rec_text r @ ''</p>'')"

text \<open>Lines 254 to 255 and 310 to 320: what the container holds when the function returns.\<close>

definition recommendations_markup :: "sim_result \<Rightarrow> node list" where
  "recommendations_markup data =
     (let rs = recommendations data
      in if length rs = 0 then [Markup all_clear]
         else foldl (\<lambda>container r. container @ [recommendation_item r]) [] rs)"

definition generateRecommendations :: "sim_result \<Rightarrow> page \<Rightarrow> completion \<times> page" where
  "generateRecommendations data =
     stmt (\<lambda>pg. pg\<lparr>recommendationsList := recommendations_markup data\<rparr>)"

section \<open>displayResults\<close>

definition updateProbability ::
  "(string \<Rightarrow> page \<Rightarrow> page) \<Rightarrow> (string \<Rightarrow> page \<Rightarrow> page) \<Rightarrow> number \<Rightarrow> page \<Rightarrow> page" where
  "updateProbability set_width set_text probability pg =
     (let percentage = fixed (times probability 100) 1
      in set_text (percentage @ ''%'') (set_width (percentage @ ''%'') pg))"

text \<open>
  Lines 108 to 134, statement by statement. \<^verbatim>\<open>toFixed\<close> and \<^verbatim>\<open>toUpperCase\<close> called on an
  absent property, and spreading or mapping an absent array, raise a \<^verbatim>\<open>TypeError\<close>;
  assigning \<^verbatim>\<open>undefined\<close> to \<^verbatim>\<open>textContent\<close> empties the text.
\<close>

definition displayResults :: "sim_result \<Rightarrow> page \<Rightarrow> completion \<times> page" where
  "displayResults data =
     seq (stmt (\<lambda>pg. pg\<lparr>results_display := ''block''\<rparr>))
    (seq (case avg_max_queue data of
            None \<Rightarrow> throw
          | Some q \<Rightarrow> stmt (\<lambda>pg. pg\<lparr>avgQueue := toFixed q 1\<rparr>))
    (seq (case avg_waiting_time data of
            None \<Rightarrow> throw
          | Some w \<Rightarrow> stmt (\<lambda>pg. pg\<lparr>avgWait := toFixed w 2\<rparr>))
    (seq (stmt (\<lambda>pg. pg\<lparr>serviceRate := fixed (times (avg_service_rate data) 100) 1\<rparr>))
    (seq (stmt (\<lambda>pg. pg\<lparr>trafficLevelCard_className :=
                         ''metric-card traffic-'' @
                         (case traffic_level data of None \<Rightarrow> ''undefined'' | Some l \<Rightarrow> l)\<rparr>))
    (seq (case traffic_level data of
            None \<Rightarrow> throw
          | Some l \<Rightarrow> stmt (\<lambda>pg. pg\<lparr>trafficLevel := toUpperCase l\<rparr>))
    (seq (stmt (\<lambda>pg. pg\<lparr>trafficDesc :=
                         (case traffic_level_description data of None \<Rightarrow> [] | Some t \<Rightarrow> t)\<rparr>))
    (seq (stmt (updateProbability (\<lambda>v pg. pg\<lparr>probLight_width := v\<rparr>)
                  (\<lambda>v pg. pg\<lparr>probLightVal := v\<rparr>) (prob_light_traffic data)))
    (seq (stmt (updateProbability (\<lambda>v pg. pg\<lparr>probModerate_width := v\<rparr>)
                  (\<lambda>v pg. pg\<lparr>probModerateVal := v\<rparr>) (prob_moderate_jam data)))
    (seq (stmt (updateProbability (\<lambda>v pg. pg\<lparr>probSevere_width := v\<rparr>)
                  (\<lambda>v pg. pg\<lparr>probSevereVal := v\<rparr>) (prob_severe_jam data)))
    (seq (createHistogram (all_max_queues data))
    (seq (createTimeSeries (sample_queue_history data))
         (generateRecommendations data))))))))))))"

section \<open>displayComparison and createComparisonTable\<close>

text \<open>
  The comparison response is given by its entries, in the order \<^verbatim>\<open>Object.keys\<close> and
  \<^verbatim>\<open>Object.entries\<close> enumerate them.
\<close>

type_synonym comparison = "(string \<times> sim_result) list"

definition table_head :: string where
  \<open>table_head = ''<div class="comparison-table"><table>'' @ ''<thead><tr>'' @
     ''<th>Scenario</th>'' @ ''<th>Avg Max Queue</th>'' @ ''<th>Waiting Time</th>'' @
     ''<th>Service Rate</th>'' @ ''<th>Severe Jam Prob</th>'' @ ''</tr></thead><tbody>''\<close>

text \<open>
  Lines 433 to 441: the loop appends one row per entry to \<^verbatim>\<open>html\<close>; \<open>None\<close> when a
  \<^verbatim>\<open>toFixed\<close> on an absent property raises.
\<close>

fun table_rows :: "comparison \<Rightarrow> string \<Rightarrow> string option" where
  "table_rows [] html = Some html"
| "table_rows ((scenario, result) # rest) html =
     (case avg_max_queue result of
        None \<Rightarrow> None
      | Some q \<Rightarrow>
          (case avg_waiting_time result of
             None \<Rightarrow> None
           | Some w \<Rightarrow>
               table_rows rest
                 (html @ ''<tr>'' @
                  ''<td><strong>'' @ scenario @ ''</strong></td>'' @
                  ''<td>'' @ toFixed q 1 @ '' vehicles</td>'' @
                  ''<td>'' @ toFixed w 2 @ '' min</td>'' @
                  ''<td>'' @ fixed (times (avg_service_rate result) 100) 1 @ ''%</td>'' @
                  ''<td>'' @ fixed (times (prob_severe_jam result) 100) 1 @ ''%</td>'' @
                  ''</tr>'')))"

definition createComparisonTable :: "comparison \<Rightarrow> page \<Rightarrow> completion \<times> page" where
  "createComparisonTable data =
     (case table_rows data table_head of
        None \<Rightarrow> throw
      | Some html \<Rightarrow> stmt (\<lambda>pg. pg\<lparr>comparisonTable := html @ ''</tbody></table></div>''\<rparr>))"

definition discard_comparison :: "page \<Rightarrow> page" where
  "discard_comparison pg = (case comparisonChart pg of None \<Rightarrow> pg | Some h \<Rightarrow> destroy h pg)"

definition displayComparison :: "comparison \<Rightarrow> page \<Rightarrow> completion \<times> page" where
  "displayComparison data =
     seq (stmt (\<lambda>pg. pg\<lparr>comparisonResults_display := ''block''\<rparr>))
    (seq (stmt discard_comparison)
    (seq (stmt (\<lambda>pg.
            let scenarios = map fst data;
                avgQueues = map (\<lambda>(s, r). avg_max_queue r) data;
                waitTimes = map (\<lambda>(s, r). avg_waiting_time r) data;
                (h, pg') =
                  new_Chart \<lparr> chart_canvas = ''comparisonChart'', chart_type = ''bar'',
                              chart_labels = map Text scenarios,
                              chart_datasets =
                                [(''Avg Max Queue'', avgQueues), (''Avg Waiting Time'', waitTimes)] \<rparr>
                    pg
            in pg'\<lparr>comparisonChart := Some h\<rparr>))
         (createComparisonTable data)))"

section \<open>runSimulation and compareScenarios\<close>

text \<open>
  An asynchronous function runs up to its \<^verbatim>\<open>fetch\<close>, which puts a request in flight, and
  resumes when the request settles: the \<^verbatim>\<open>fetch\<close> is rejected (transport failure), or
  \<^verbatim>\<open>response.json()\<close> is rejected (the body is not JSON), or the body is parsed. The status
  code is never inspected, so a non-success status is one of the last two.
\<close>

datatype 'a reply = Rejected | Unparsable | Parsed 'a

definition runSimulation_start :: "page \<Rightarrow> page" where
  "runSimulation_start pg =
     (let scenario = scenarioSelect (inputs pg);
          params = getParameters (inputs pg);
          pg1 = pg\<lparr>loading_display := ''block'', results_display := ''none'',
                    comparisonResults_display := ''none''\<rparr>;
          pg2 = pg1\<lparr>btn_disabled := True, btnText := hourglass @ '' Running...''\<rparr>;
          req = (if scenario = ''custom''
                 then \<lparr> req_origin = RunSimulation, req_url = ''/simulate/enhanced'',
                        req_body = Enhanced params \<rparr>
                 else \<lparr> req_origin = RunSimulation, req_url = ''/scenarios/'' @ scenario,
                        req_body = Simulations (params_simulations params) \<rparr>)
      in pg2\<lparr>in_flight := in_flight pg2 @ [req]\<rparr>)"

definition runSimulation_settle :: "sim_result reply \<Rightarrow> page \<Rightarrow> page" where
  "runSimulation_settle r pg =
     (let (c, pg1) = (case r of
                        Rejected \<Rightarrow> throw pg
                      | Unparsable \<Rightarrow> throw pg
                      | Parsed data \<Rightarrow> displayResults data pg);
          pg2 = (case c of
                   Threw \<Rightarrow> pg1\<lparr>alerts := alerts pg1 @ [''Simulation failed. Please try again.'']\<rparr>
                 | Returned \<Rightarrow> pg1)
      in pg2\<lparr>loading_display := ''none'', btn_disabled := False,
              btnText := play_sign @ '' Run Simulation''\<rparr>)"

definition compareScenarios_start :: "page \<Rightarrow> page" where
  "compareScenarios_start pg =
     (let pg1 = pg\<lparr>loading_display := ''block'', results_display := ''none'',
                    comparisonResults_display := ''none''\<rparr>;
          simCount = simCount (inputs pg1);
          req = \<lparr> req_origin = CompareScenarios, req_url = ''/scenarios/compare'',
                  req_body = Compare [''baseline'', ''optimized'', ''heavy_traffic'', ''ideal_conditions'']
                               simCount \<rparr>
      in pg1\<lparr>in_flight := in_flight pg1 @ [req]\<rparr>)"

definition compareScenarios_settle :: "comparison reply \<Rightarrow> page \<Rightarrow> page" where
  "compareScenarios_settle r pg =
     (let (c, pg1) = (case r of
                        Rejected \<Rightarrow> throw pg
                      | Unparsable \<Rightarrow> throw pg
                      | Parsed data \<Rightarrow> displayComparison data pg);
          pg2 = (case c of
                   Threw \<Rightarrow> pg1\<lparr>alerts := alerts pg1 @ [''Comparison failed. Please try again.'']\<rparr>
                 | Returned \<Rightarrow> pg1)
      in pg2\<lparr>loading_display := ''none''\<rparr>)"

section \<open>The page as a transition system\<close>

text \<open>
  Modelled from the spec: the page markup is not among the source files. Each request is
  started by its triggering control. The control of \<^verbatim>\<open>runSimulation\<close> is the button the
  script looks up as \<^verbatim>\<open>.btn-primary\<close> (it holds the caption \<^verbatim>\<open>btnText\<close>), and a disabled
  button raises no click; the control of \<^verbatim>\<open>compareScenarios\<close> is another element, and no
  statement of the script disables any element but the first.
\<close>

datatype event =
    SetInputs form
  | ClickRun
  | ClickCompare
  | SettleRun nat "sim_result reply"
  | SettleCompare nat "comparison reply"

definition settled :: "nat \<Rightarrow> page \<Rightarrow> page" where
  "settled k pg = pg\<lparr>in_flight := take k (in_flight pg) @ drop (Suc k) (in_flight pg)\<rparr>"

fun step :: "event \<Rightarrow> page \<Rightarrow> page option" where
  "step (SetInputs f) pg = Some (pg\<lparr>inputs := f\<rparr>)"
| "step ClickRun pg = (if btn_disabled pg then None else Some (runSimulation_start pg))"
| "step ClickCompare pg = Some (compareScenarios_start pg)"
| "step (SettleRun k r) pg =
     (if k < length (in_flight pg) \<and> req_origin (in_flight pg ! k) = RunSimulation
      then Some (runSimulation_settle r (settled k pg)) else None)"
| "step (SettleCompare k r) pg =
     (if k < length (in_flight pg) \<and> req_origin (in_flight pg ! k) = CompareScenarios
      then Some (compareScenarios_settle r (settled k pg)) else None)"

fun run :: "event list \<Rightarrow> page \<Rightarrow> page option" where
  "run [] pg = Some pg"
| "run (e # es) pg = (case step e pg of None \<Rightarrow> None | Some pg' \<Rightarrow> run es pg')"

text \<open>The page as loaded: no inline style set, nothing rendered, no chart, no request.\<close>

definition page0 :: "form \<Rightarrow> page" where
  "page0 f =
     \<lparr> inputs = f, loading_display = [], results_display = [],
       comparisonResults_display = [], btn_disabled = False, btnText = [],
       avgQueue = [], avgWait = [], serviceRate = [], trafficLevelCard_className = [],
       trafficLevel = [], trafficDesc = [], probLight_width = [], probLightVal = [],
       probModerate_width = [], probModerateVal = [], probSevere_width = [],
       probSevereVal = [], recommendationsList = [], comparisonTable = [],
       histogramChart = None, timeSeriesChart = None, comparisonChart = None,
       charts = [], next_chart = 0, alerts = [], in_flight = [] \<rparr>"

section \<open>Chart slots\<close>

text \<open>The render operations that construct charts, with any argument they can receive.\<close>

datatype render_op =
    Histogram "real list option"
  | TimeSeries "real list option"
  | Comparison comparison
  | Results sim_result

fun render :: "render_op \<Rightarrow> page \<Rightarrow> page" where
  "render (Histogram d) pg = snd (createHistogram d pg)"
| "render (TimeSeries d) pg = snd (createTimeSeries d pg)"
| "render (Comparison d) pg = snd (displayComparison d pg)"
| "render (Results d) pg = snd (displayResults d pg)"

definition live_on :: "string \<Rightarrow> page \<Rightarrow> (nat \<times> chart) list" where
  "live_on canvas pg = filter (\<lambda>(i, c). chart_canvas c = canvas) (charts pg)"

section \<open>The rule table and the comparison rows, as the specification words them\<close>

text \<open>
  The six threshold rules of the specification, each with its own condition, in the fixed
  evaluation order; a rule fires when its condition holds.
\<close>

definition rule_table :: "sim_result \<Rightarrow> (bool \<times> recommendation) list" where
  "rule_table data =
     [ (case avg_max_queue data of None \<Rightarrow> False | Some q \<Rightarrow> q > 100, very_high_queue data),
       (case avg_max_queue data of None \<Rightarrow> False | Some q \<Rightarrow> 60 < q \<and> q \<le> 100,
          moderate_congestion data),
       (case avg_service_rate data of None \<Rightarrow> False | Some s \<Rightarrow> s < 7 / 10,
          low_service_rate data),
       (case avg_waiting_time data of None \<Rightarrow> False | Some w \<Rightarrow> w > 10,
          high_waiting_time data),
       (case avg_accidents_per_hour data of None \<Rightarrow> False | Some a \<Rightarrow> a > 2,
          high_accident_frequency data),
       (case prob_severe_jam data of None \<Rightarrow> False | Some p \<Rightarrow> p > 2 / 10,
          high_severe_jam data) ]"

definition fired_rules :: "sim_result \<Rightarrow> recommendation list" where
  "fired_rules data = map snd (filter fst (rule_table data))"

text \<open>The table row of one scenario, and the scenarios whose summary can be tabulated.\<close>

definition table_row :: "string \<times> sim_result \<Rightarrow> string" where
  "table_row e =
     ''<tr>'' @
     ''<td><strong>'' @ fst e @ ''</strong></td>'' @
     ''<td>'' @ fixed (avg_max_queue (snd e)) 1 @ '' vehicles</td>'' @
     ''<td>'' @ fixed (avg_waiting_time (snd e)) 2 @ '' min</td>'' @
     ''<td>'' @ fixed (times (avg_service_rate (snd e)) 100) 1 @ ''%</td>'' @
     ''<td>'' @ fixed (times (prob_severe_jam (snd e)) 100) 1 @ ''%</td>'' @
     ''</tr>''"

definition tabulable :: "string \<times> sim_result \<Rightarrow> bool" where
  "tabulable e = (avg_max_queue (snd e) \<noteq> None \<and> avg_waiting_time (snd e) \<noteq> None)"

section \<open>The chart slot invariant\<close>

text \<open>
  Live instances have distinct identities below the next free one, and each sits on one
  of the three canvases and is the instance that the global handle of that canvas holds.
\<close>

definition handle_of :: "string \<Rightarrow> page \<Rightarrow> nat option" where
  "handle_of canvas pg =
     (if canvas = ''histogramChart'' then histogramChart pg
      else if canvas = ''timeSeriesChart'' then timeSeriesChart pg
      else if canvas = ''comparisonChart'' then comparisonChart pg
      else None)"

definition slot_inv :: "page \<Rightarrow> bool" where
  "slot_inv pg =
     (distinct (map fst (charts pg)) \<and>
      list_all (\<lambda>(i, c). i < next_chart pg \<and> handle_of (chart_canvas c) pg = Some i)
        (charts pg))"

definition preserves :: "(page \<Rightarrow> completion \<times> page) \<Rightarrow> bool" where
  "preserves f = (\<forall>pg. slot_inv pg \<longrightarrow> slot_inv (snd (f pg)))"

section \<open>Requests in flight and failing requests\<close>

text \<open>The requests in flight that \<^verbatim>\<open>runSimulation\<close> sent.\<close>

definition run_requests :: "page \<Rightarrow> request list" where
  "run_requests pg = filter (\<lambda>r. req_origin r = RunSimulation) (in_flight pg)"

text \<open>
  While a simulation request is in flight the button is disabled, and there is never more
  than one such request.
\<close>

definition run_inv :: "page \<Rightarrow> bool" where
  "run_inv pg = (if run_requests pg = [] then True
                 else length (run_requests pg) = 1 \<and> btn_disabled pg)"

text \<open>A call that leaves a part of the page as it was, whether it returns or raises.\<close>

definition unchanged :: "(page \<Rightarrow> 'a) \<Rightarrow> (page \<Rightarrow> completion \<times> page) \<Rightarrow> bool" where
  "unchanged part f = (\<forall>pg. part (snd (f pg)) = part pg)"

text \<open>
  A simulation request fails when the transport fails, when the body cannot be parsed, or
  when rendering the parsed payload raises (a payload that lacks a required property).
\<close>

definition failed :: "sim_result reply \<Rightarrow> page \<Rightarrow> bool" where
  "failed r pg =
     (case r of Rejected \<Rightarrow> True | Unparsable \<Rightarrow> True
      | Parsed data \<Rightarrow> fst (displayResults data pg) = Threw)"

text \<open>A payload that carries a queue figure and no waiting time.\<close>

definition example_partial :: sim_result where
  "example_partial = \<lparr> avg_max_queue = Some 50, avg_waiting_time = None,
     avg_service_rate = None, avg_accidents_per_hour = None,
     traffic_level = None, traffic_level_description = None,
     prob_light_traffic = None, prob_moderate_jam = None,
     prob_severe_jam = None, all_max_queues = None,
     sample_queue_history = None \<rparr>"

section \<open>Auxiliary notions for the proofs\<close>

text \<open>The number of samples strictly below a threshold.\<close>

definition below :: "real \<Rightarrow> real list \<Rightarrow> nat" where
  "below t xs = length (filter (\<lambda>x. x < t) xs)"

section \<open>Example inputs\<close>

text \<open>A result whose average maximum queue sits on the boundary 100.\<close>

definition example_100 :: sim_result where
  "example_100 = \<lparr> avg_max_queue = Some 100, avg_waiting_time = Some 2,
     avg_service_rate = Some (95 / 100), avg_accidents_per_hour = Some 0,
     traffic_level = Some ''moderate'', traffic_level_description = Some ''Moderate traffic'',
     prob_light_traffic = Some (1 / 2), prob_moderate_jam = Some (1 / 2),
     prob_severe_jam = Some (1 / 100), all_max_queues = Some [90, 110],
     sample_queue_history = Some [0, 5, 3] \<rparr>"

text \<open>The specification's example of a result below every threshold.\<close>

definition example_clear :: sim_result where
  "example_clear = \<lparr> avg_max_queue = Some 10, avg_waiting_time = Some 2,
     avg_service_rate = Some (95 / 100), avg_accidents_per_hour = Some 0,
     traffic_level = Some ''light'', traffic_level_description = Some ''Light traffic'',
     prob_light_traffic = Some (9 / 10), prob_moderate_jam = Some (1 / 10),
     prob_severe_jam = Some (1 / 100), all_max_queues = Some [8, 12],
     sample_queue_history = Some [0, 5, 3] \<rparr>"

text \<open>A comparison summary: the four properties the comparison view reads.\<close>

definition summary :: "real \<Rightarrow> real \<Rightarrow> real \<Rightarrow> real \<Rightarrow> sim_result" where
  "summary q w s p = \<lparr> avg_max_queue = Some q, avg_waiting_time = Some w,
     avg_service_rate = Some s, avg_accidents_per_hour = None,
     traffic_level = None, traffic_level_description = None,
     prob_light_traffic = None, prob_moderate_jam = None,
     prob_severe_jam = Some p, all_max_queues = None,
     sample_queue_history = None \<rparr>"

text \<open>Two scenarios, the second with the lower queue.\<close>

definition example_comparison :: comparison where
  "example_comparison =
     [(''baseline'', summary 80 12 (7 / 10) (3 / 10)),
      (''optimized'', summary 40 5 (9 / 10) (1 / 10))]"

definition example_form :: form where
  "example_form = \<lparr> scenarioSelect = ''custom'', simCount = Some 1000, rushMin = Some 8,
     rushMax = Some 15, normalMin = Some 3, normalMax = Some 7, greenCapacity = Some 10,
     accidentProb = Some 5, rushDuration = Some 30 \<rparr>"

text \<open>What the results view shows: the panel's display and the two leading metric cards.\<close>

definition view :: "page \<Rightarrow> string \<times> string \<times> string" where
  "view pg = (results_display pg, avgQueue pg, avgWait pg)"

text \<open>The addresses of the requests in flight, and whether the button is disabled.\<close>

definition traffic :: "page \<Rightarrow> string list \<times> bool" where
  "traffic pg = (map req_url (in_flight pg), btn_disabled pg)"

section \<open>Properties of the binning loop\<close>

lemma fold_min_le_init: "fold min xs (a::real) \<le> a"
proof (induction xs arbitrary: a)
  case Nil
  show ?case by simp
next
  case (Cons y ys)
  have "fold min ys (min y a) \<le> min y a" by (rule Cons.IH)
  also have "\<dots> \<le> a" by simp
  finally show ?case by simp
qed

lemma fold_min_le_elem: "x \<in> set xs \<Longrightarrow> fold min xs (a::real) \<le> x"
proof (induction xs arbitrary: a)
  case Nil
  then show ?case by simp
next
  case (Cons y ys)
  show ?case
  proof (cases "x = y")
    case True
    have "fold min ys (min y a) \<le> min y a" by (rule fold_min_le_init)
    with True show ?thesis by simp
  next
    case False
    with Cons show ?thesis by simp
  qed
qed

lemma fold_max_ge_init: "(a::real) \<le> fold max xs a"
proof (induction xs arbitrary: a)
  case Nil
  show ?case by simp
next
  case (Cons y ys)
  have "a \<le> max y a" by simp
  also have "\<dots> \<le> fold max ys (max y a)" by (rule Cons.IH)
  finally show ?case by simp
qed

lemma fold_max_ge_elem: "x \<in> set xs \<Longrightarrow> x \<le> fold max xs (a::real)"
proof (induction xs arbitrary: a)
  case Nil
  then show ?case by simp
next
  case (Cons y ys)
  show ?case
  proof (cases "x = y")
    case True
    have "max y a \<le> fold max ys (max y a)" by (rule fold_max_ge_init)
    with True show ?thesis by simp
  next
    case False
    with Cons show ?thesis by simp
  qed
qed

lemma fold_max_mem: "fold max xs (a::real) \<in> insert a (set xs)"
  by (induction xs arbitrary: a) (auto simp: max_def)

lemma fold_min_mem: "fold min xs (a::real) \<in> insert a (set xs)"
  by (induction xs arbitrary: a) (auto simp: min_def)

lemma Math_min_mem: "data \<noteq> [] \<Longrightarrow> Math_min data \<in> set data"
  using fold_min_mem [of "tl data" "hd data"] by (cases data) (auto simp: Math_min_def)

lemma Math_min_le: "x \<in> set data \<Longrightarrow> Math_min data \<le> x"
  by (cases data) (auto simp: Math_min_def fold_min_le_init fold_min_le_elem)

lemma Math_max_ge: "x \<in> set data \<Longrightarrow> x \<le> Math_max data"
  by (cases data) (auto simp: Math_max_def fold_max_ge_init fold_max_ge_elem)

lemma Math_max_mem: "data \<noteq> [] \<Longrightarrow> Math_max data \<in> set data"
  using fold_max_mem [of "tl data" "hd data"] by (cases data) (auto simp: Math_max_def)

text \<open>A half-open bin holds the samples below its end that are not below its start.\<close>

lemma below_split:
  "s \<le> e \<Longrightarrow> below s xs + length (filter (\<lambda>x. x \<ge> s \<and> x < e) xs) = below e xs"
  by (induction xs) (auto simp: below_def)

text \<open>The end of each bin is the start of the next, so the counts of the first \<open>n\<close> bins telescope.\<close>

lemma bins_telescope:
  assumes "0 \<le> w"
  shows "below mn xs +
           sum_list (map (\<lambda>i. let binStart = mn + real i * w; binEnd = binStart + w
                            in length (filter (\<lambda>x. x \<ge> binStart \<and> x < binEnd) xs)) [0..<n])
         = below (mn + real n * w) xs"
proof (induction n)
  case 0
  show ?case by simp
next
  case (Suc n)
  have step: "below (mn + real n * w) xs +
        length (filter (\<lambda>x. x \<ge> mn + real n * w \<and> x < mn + real n * w + w) xs)
        = below (mn + real n * w + w) xs"
    using assms by (intro below_split) simp
  have eq: "mn + real (Suc n) * w = mn + real n * w + w"
    by (simp add: algebra_simps)
  let ?f = "\<lambda>i. let binStart = mn + real i * w; binEnd = binStart + w
                in length (filter (\<lambda>x. x \<ge> binStart \<and> x < binEnd) xs)"
  have "below mn xs + sum_list (map ?f [0..<Suc n])
        = (below mn xs + sum_list (map ?f [0..<n])) + ?f n"
    by simp
  also have "\<dots> = below (mn + real n * w) xs + ?f n"
    by (simp only: Suc)
  also have "\<dots> = below (mn + real n * w + w) xs"
    using step by (simp add: Let_def)
  finally show ?case by (simp only: eq)
qed

text \<open>
  Over the reals the 20 bins cover exactly the samples strictly below the maximum: the
  counts add up to the number of those samples, which is always short of the sample count.
\<close>

lemma histogram_counts_sum:
  assumes "data \<noteq> []"
  shows "sum_list (histogram_counts data) = length (filter (\<lambda>x. x < Math_max data) data)"
proof -
  define mn where "mn = Math_min data"
  define mx where "mx = Math_max data"
  define w where "w = (mx - mn) / real bins"
  have "mx \<in> set data" unfolding mx_def using assms by (rule Math_max_mem)
  then have "mn \<le> mx" unfolding mn_def by (rule Math_min_le)
  then have w0: "0 \<le> w" by (simp add: w_def bins_def)
  have none: "below mn data = 0"
    using Math_min_le [of _ data] by (auto simp: below_def mn_def filter_empty_conv not_less)
  have top: "mn + real bins * w = mx"
    by (simp add: w_def bins_def field_simps)
  have "sum_list (histogram_counts data) = below mn data + sum_list (histogram_counts data)"
    using none by simp
  also have "\<dots> = below (mn + real bins * w) data"
    using bins_telescope [OF w0, of mn data bins] assms
    by (simp add: histogram_counts_def Let_def mn_def mx_def w_def)
  finally show ?thesis
    by (simp add: top below_def mx_def)
qed

lemma histogram_counts_sum_less:
  assumes "data \<noteq> []"
  shows "sum_list (histogram_counts data) < length data"
proof -
  have "Math_max data \<in> set data" using assms by (rule Math_max_mem)
  then have "length (filter (\<lambda>x. x < Math_max data) data) < length data"
    by (intro length_filter_less[of "Math_max data"]) auto
  then show ?thesis using assms by (simp add: histogram_counts_sum)
qed

text \<open>When all samples are equal the bin width is 0, every bin is empty and no count is set.\<close>

lemma histogram_counts_constant:
  assumes "data \<noteq> []" and "\<forall>x \<in> set data. x = v"
  shows "histogram_counts data = replicate bins 0"
proof -
  have "Math_max data \<in> set data" using assms(1) by (rule Math_max_mem)
  then have mx: "Math_max data = v" using assms(2) by simp
  have "Math_min data \<in> set data" using assms(1) by (rule Math_min_mem)
  then have mn: "Math_min data = v" using assms(2) by simp
  show ?thesis
    using assms(1) by (simp add: histogram_counts_def mx mn map_replicate_const)
qed

text \<open>
  C1: the claim asks that the 20 bin counts add up to the number of samples. Every bin,
  the last one included, tests \<^verbatim>\<open>x < binEnd\<close>, so the largest sample falls in no bin. On
  the samples 0 and 20 the bin width is 1, the sample 0 is counted in bin 0, the sample 20
  is counted nowhere, and the counts add up to 1 for 2 samples.
\<close>

theorem createHistogram_drops_maximum:
  "histogram_counts [0, 20] = 1 # replicate 19 0 \<and>
   sum_list (histogram_counts [0, 20]) = 1 \<and> length [0, 20 :: real] = 2"
  by (simp add: histogram_counts_def Math_min_def Math_max_def bins_def upt_rec numeral_eq_Suc)

text \<open>
  C2: the claim asks that equal samples all land in bin 0. The division is by the bin
  count 20, never by the bin width, so nothing divides by zero; but with width 0 each bin
  is the empty interval from the common value to itself. On the samples 5 and 5 all 20
  counts are 0, bin 0 included.
\<close>

theorem createHistogram_equal_samples_uncounted:
  "histogram_counts [5, 5] = replicate 20 0 \<and> length [5, 5 :: real] = 2"
  by (simp add: histogram_counts_def Math_min_def Math_max_def bins_def upt_rec numeral_eq_Suc)

section \<open>Properties of the recommendation rules\<close>

text \<open>
  The chain of conditionals pushes exactly the rules of the table whose condition holds,
  in the order of the table; the only \<^verbatim>\<open>else\<close> of the chain makes the second condition
  \<open>60 < q \<le> 100\<close>.
\<close>

lemma recommendations_fired: "recommendations data = fired_rules data"
  by (auto simp: recommendations_def fired_rules_def rule_table_def gt_def lt_def Let_def
      split: option.splits)

lemma titles_differ:
  "rec_title (moderate_congestion d) \<noteq> siren @ '' Critical: Very High Queue Length''"
  "rec_title (low_service_rate d) \<noteq> siren @ '' Critical: Very High Queue Length''"
  "rec_title (high_waiting_time d) \<noteq> siren @ '' Critical: Very High Queue Length''"
  "rec_title (high_accident_frequency d) \<noteq> siren @ '' Critical: Very High Queue Length''"
  "rec_title (high_severe_jam d) \<noteq> siren @ '' Critical: Very High Queue Length''"
  by (simp_all add: moderate_congestion_def low_service_rate_def high_waiting_time_def
      high_accident_frequency_def high_severe_jam_def siren_def warning_sign_def stopwatch_def
      ambulance_def bar_chart_def)

lemma foldl_append_items: "foldl (\<lambda>container r. container @ [f r]) acc rs = acc @ map f rs"
  by (induction rs arbitrary: acc) simp_all

lemma recommendations_markup_items:
  "recommendations data \<noteq> [] \<Longrightarrow>
   recommendations_markup data = map recommendation_item (recommendations data)"
  by (simp add: recommendations_markup_def Let_def foldl_append_items)

text \<open>
  C4: when the average maximum queue is exactly 100, the recommendations contain the
  warning titled Moderate Congestion, none of them carries the title of the critical Very
  High Queue Length rule, and the rendered container holds the warning's item.
\<close>

theorem queue_boundary_100:
  assumes "avg_max_queue data = Some 100"
  shows "moderate_congestion data \<in> set (recommendations data) \<and>
         rec_type (moderate_congestion data) = ''warning'' \<and>
         rec_title (moderate_congestion data) = warning_sign @ '' Warning: Moderate Congestion'' \<and>
         (\<forall>r \<in> set (recommendations data).
            rec_title r \<noteq> siren @ '' Critical: Very High Queue Length'') \<and>
         recommendation_item (moderate_congestion data) \<in> set (recommendations_markup data)"
proof -
  have mem: "moderate_congestion data \<in> set (recommendations data)"
    using assms by (simp add: recommendations_fired fired_rules_def rule_table_def)
  have titles: "\<forall>r \<in> set (recommendations data).
            rec_title r \<noteq> siren @ '' Critical: Very High Queue Length''"
    using assms titles_differ [of data]
    by (auto simp: recommendations_fired fired_rules_def rule_table_def)
  have "recommendations data \<noteq> []" using mem by auto
  then have "recommendation_item (moderate_congestion data) \<in> set (recommendations_markup data)"
    using mem by (simp add: recommendations_markup_items)
  with mem titles show ?thesis
    by (simp add: moderate_congestion_def)
qed

theorem queue_boundary_100_witness:
  "avg_max_queue example_100 = Some 100 \<and>
   recommendations example_100 = [moderate_congestion example_100] \<and>
   moderate_congestion example_100 \<in> set (recommendations example_100) \<and>
   rec_title (moderate_congestion example_100) = warning_sign @ '' Warning: Moderate Congestion''"
proof -
  have h: "avg_max_queue example_100 = Some 100" by (simp add: example_100_def)
  have "recommendations example_100 = [moderate_congestion example_100]"
    by (simp add: recommendations_def example_100_def gt_def lt_def)
  with h queue_boundary_100 [OF h] show ?thesis by simp
qed

text \<open>
  C5: each of the six threshold rules fires exactly when its own condition holds,
  whatever the other rules do, and the recommendations that fire appear in the order of
  the table: queue length, service rate, waiting time, accident frequency, severe-jam
  probability.
\<close>

theorem rules_fire_independently_in_order: "recommendations data = fired_rules data"
  by (rule recommendations_fired)

text \<open>
  C6: when no threshold rule fires, the container holds the single all-clear paragraph,
  not an empty list.
\<close>

theorem all_clear_when_no_rule_fires:
  assumes "\<not> gt (avg_max_queue data) 60" and "\<not> lt (avg_service_rate data) (7 / 10)"
    and "\<not> gt (avg_waiting_time data) 10" and "\<not> gt (avg_accidents_per_hour data) 2"
    and "\<not> gt (prob_severe_jam data) (2 / 10)"
  shows "recommendations data = [] \<and> recommendations_markup data = [Markup all_clear] \<and>
         generateRecommendations data pg =
           (Returned, pg\<lparr>recommendationsList := [Markup all_clear]\<rparr>)"
proof -
  have "\<not> gt (avg_max_queue data) 100"
    using assms(1) by (auto simp: gt_def split: option.splits)
  with assms have "recommendations data = []"
    by (simp add: recommendations_def)
  then show ?thesis
    by (simp add: recommendations_markup_def generateRecommendations_def stmt_def)
qed

theorem all_clear_when_no_rule_fires_witness:
  "\<not> gt (avg_max_queue example_clear) 60 \<and> \<not> lt (avg_service_rate example_clear) (7 / 10) \<and>
   \<not> gt (avg_waiting_time example_clear) 10 \<and> \<not> gt (avg_accidents_per_hour example_clear) 2 \<and>
   \<not> gt (prob_severe_jam example_clear) (2 / 10) \<and>
   recommendations_markup example_clear = [Markup all_clear]"
proof -
  have h: "\<not> gt (avg_max_queue example_clear) 60" "\<not> lt (avg_service_rate example_clear) (7 / 10)"
    "\<not> gt (avg_waiting_time example_clear) 10" "\<not> gt (avg_accidents_per_hour example_clear) 2"
    "\<not> gt (prob_severe_jam example_clear) (2 / 10)"
    by (simp_all add: example_clear_def gt_def lt_def)
  from h all_clear_when_no_rule_fires [OF h] show ?thesis by simp
qed

section \<open>Properties of the comparison table and of getParameters\<close>

lemma table_rows_append:
  "\<forall>e \<in> set data. tabulable e \<Longrightarrow>
   table_rows data html = Some (html @ concat (map table_row data))"
proof (induction data arbitrary: html)
  case Nil
  show ?case by simp
next
  case (Cons e rest)
  obtain scenario result where e: "e = (scenario, result)" by (cases e)
  from Cons.prems obtain q w where
    q: "avg_max_queue result = Some q" and w: "avg_waiting_time result = Some w"
    by (auto simp: tabulable_def e)
  have rest: "\<forall>e \<in> set rest. tabulable e" using Cons.prems by simp
  show ?case
    by (simp add: e q w Cons.IH [OF rest] table_row_def fixed_def)
qed

text \<open>
  C7: for a comparison whose summaries carry the two numbers the table formats directly,
  the table body is the rows of the entries one after the other in the order the mapping
  enumerates them, whatever the metric values are.
\<close>

theorem table_rows_in_input_order:
  assumes "\<forall>e \<in> set data. tabulable e"
  shows "createComparisonTable data pg =
           (Returned, pg\<lparr>comparisonTable :=
              table_head @ concat (map table_row data) @ ''</tbody></table></div>''\<rparr>)"
  using table_rows_append [OF assms, of table_head]
  by (simp add: createComparisonTable_def stmt_def)

theorem table_rows_in_input_order_witness:
  "tabulable (''baseline'', summary 80 12 (7 / 10) (3 / 10)) \<and>
   tabulable (''optimized'', summary 40 5 (9 / 10) (1 / 10)) \<and>
   comparisonTable (snd (createComparisonTable example_comparison (page0 example_form))) =
     table_head @ table_row (''baseline'', summary 80 12 (7 / 10) (3 / 10)) @
       table_row (''optimized'', summary 40 5 (9 / 10) (1 / 10)) @ ''</tbody></table></div>''"
proof -
  have h: "\<forall>e \<in> set example_comparison. tabulable e"
    by (simp add: example_comparison_def tabulable_def summary_def)
  show ?thesis
    using h table_rows_in_input_order [OF h, of "page0 example_form"]
    by (simp add: example_comparison_def)
qed

text \<open>
  C10: in a custom-scenario request the accident capacity is 2, the accident duration
  range is 5 to 15 and the simulated minutes are 60 whatever the form holds; every other
  field is read from the form.
\<close>

theorem custom_request_constants:
  assumes "scenarioSelect f = ''custom''"
  shows "\<exists>c. getParameters f = Custom c \<and>
           green_capacity_accident c = 2 \<and> accident_duration_range c = (5, 15) \<and>
           simulation_minutes c = 60 \<and>
           rush_hour_rate c = (rushMin f, rushMax f) \<and>
           normal_rate c = (normalMin f, normalMax f) \<and>
           green_capacity_normal c = greenCapacity f \<and>
           accident_probability c = times (accidentProb f) (1 / 100) \<and>
           rush_hour_minutes c = rushDuration f \<and> simulations c = simCount f"
  using assms by (simp add: getParameters_def)

theorem custom_request_constants_witness:
  "scenarioSelect example_form = ''custom'' \<and>
   (\<exists>c. getParameters example_form = Custom c \<and> green_capacity_accident c = 2 \<and>
        accident_duration_range c = (5, 15) \<and> simulation_minutes c = 60 \<and>
        green_capacity_normal c = Some 10)"
proof -
  have h: "scenarioSelect example_form = ''custom''" by (simp add: example_form_def)
  from custom_request_constants [OF h] obtain c where
    "getParameters example_form = Custom c" "green_capacity_accident c = 2"
    "accident_duration_range c = (5, 15)" "simulation_minutes c = 60"
    "green_capacity_normal c = greenCapacity example_form" by blast
  then show ?thesis using h by (auto simp: example_form_def)
qed

section \<open>Properties of the chart slots\<close>

lemma filter_same_key:
  "distinct (map fst xs) \<Longrightarrow> \<forall>x \<in> set xs. P x \<longrightarrow> fst x = h \<Longrightarrow> length (filter P xs) \<le> 1"
proof (induction xs)
  case Nil
  show ?case by simp
next
  case (Cons x xs)
  show ?case
  proof (cases "P x")
    case True
    with Cons.prems have hx: "fst x = h" by simp
    have "\<not> P y" if "y \<in> set xs" for y
    proof
      assume "P y"
      with that Cons.prems have "fst y = h" by simp
      moreover have "fst x \<notin> fst ` set xs" using Cons.prems by simp
      ultimately show False using hx that by force
    qed
    then have "\<forall>y \<in> set xs. \<not> P y" by blast
    then have "filter P xs = []" by (simp add: filter_empty_conv)
    with True show ?thesis by simp
  next
    case False
    with Cons show ?thesis by simp
  qed
qed

lemma slot_inv_entry:
  "slot_inv pg \<Longrightarrow> (i, c) \<in> set (charts pg) \<Longrightarrow>
   i < next_chart pg \<and> handle_of (chart_canvas c) pg = Some i"
  by (auto simp: slot_inv_def list_all_iff)

lemma slot_inv_live_on:
  assumes "slot_inv pg"
  shows "length (live_on canvas pg) \<le> 1"
proof -
  have d: "distinct (map fst (charts pg))" using assms by (simp add: slot_inv_def)
  have "\<forall>x \<in> set (charts pg).
          (case x of (i, c) \<Rightarrow> chart_canvas c = canvas) \<longrightarrow> fst x = the (handle_of canvas pg)"
    using slot_inv_entry [OF assms] by fastforce
  with d show ?thesis unfolding live_on_def by (rule filter_same_key)
qed

lemma preserves_seq: "preserves f \<Longrightarrow> preserves g \<Longrightarrow> preserves (seq f g)"
  by (auto simp: preserves_def seq_def split: prod.splits completion.splits)

lemma preserves_throw: "preserves throw"
  by (simp add: preserves_def throw_def)

lemma preserves_stmt: "(\<And>pg. slot_inv pg \<Longrightarrow> slot_inv (f pg)) \<Longrightarrow> preserves (stmt f)"
  by (simp add: preserves_def stmt_def)

lemma slot_inv_destroy: "slot_inv pg \<Longrightarrow> slot_inv (destroy h pg)"
  by (auto simp: slot_inv_def destroy_def list_all_iff distinct_map_filter handle_of_def)

lemma live_on_destroy:
  assumes "slot_inv pg" and "handle_of canvas pg = Some h"
  shows "live_on canvas (destroy h pg) = []"
proof -
  have "i = h" if "(i, c) \<in> set (charts pg)" "chart_canvas c = canvas" for i c
    using slot_inv_entry [OF assms(1) that(1)] that(2) assms(2) by simp
  then show ?thesis
    by (auto simp: live_on_def destroy_def filter_empty_conv)
qed

lemma live_on_no_handle:
  assumes "slot_inv pg" and "handle_of canvas pg = None"
  shows "live_on canvas pg = []"
proof -
  have "False" if "(i, c) \<in> set (charts pg)" "chart_canvas c = canvas" for i c
    using slot_inv_entry [OF assms(1) that(1)] that(2) assms(2) by simp
  then show ?thesis
    by (auto simp: live_on_def filter_empty_conv)
qed

lemma slot_inv_discard_histogram: "slot_inv pg \<Longrightarrow> slot_inv (discard_histogram pg)"
  by (simp add: discard_histogram_def slot_inv_destroy split: option.splits)

lemma live_on_discard_histogram:
  assumes "slot_inv pg"
  shows "live_on ''histogramChart'' (discard_histogram pg) = []"
proof (cases "histogramChart pg")
  case None
  then have "handle_of ''histogramChart'' pg = None" by (simp add: handle_of_def)
  with assms have "live_on ''histogramChart'' pg = []" by (rule live_on_no_handle)
  with None show ?thesis by (simp add: discard_histogram_def)
next
  case (Some h)
  then have "handle_of ''histogramChart'' pg = Some h" by (simp add: handle_of_def)
  with assms have "live_on ''histogramChart'' (destroy h pg) = []" by (rule live_on_destroy)
  with Some show ?thesis by (simp add: discard_histogram_def)
qed

lemma slot_inv_attach:
  assumes inv: "slot_inv pg" and empty: "live_on canvas pg = []"
    and upd: "handle_of canvas pg' = Some (next_chart pg)"
      "\<And>cv. cv \<noteq> canvas \<Longrightarrow> handle_of cv pg' = handle_of cv pg"
      "\<exists>c. chart_canvas c = canvas \<and> charts pg' = charts pg @ [(next_chart pg, c)]"
      "next_chart pg' = Suc (next_chart pg)"
  shows "slot_inv pg'"
proof -
  from upd(3) obtain c where c: "chart_canvas c = canvas"
    and cs: "charts pg' = charts pg @ [(next_chart pg, c)]" by blast
  have old: "i < next_chart pg \<and> handle_of (chart_canvas c') pg = Some i \<and> chart_canvas c' \<noteq> canvas"
    if "(i, c') \<in> set (charts pg)" for i c'
  proof -
    have "chart_canvas c' \<noteq> canvas"
      using empty that by (auto simp: live_on_def filter_empty_conv)
    with slot_inv_entry [OF inv that] show ?thesis by simp
  qed
  have fresh: "next_chart pg \<notin> fst ` set (charts pg)"
    using old by force
  have d: "distinct (map fst (charts pg'))"
    using inv fresh by (simp add: cs slot_inv_def)
  have "i < next_chart pg' \<and> handle_of (chart_canvas c') pg' = Some i"
    if "(i, c') \<in> set (charts pg')" for i c'
  proof (cases "(i, c') \<in> set (charts pg)")
    case True
    from old [OF True] show ?thesis by (simp add: upd)
  next
    case False
    with that have "i = next_chart pg" "c' = c" by (simp_all add: cs)
    then show ?thesis by (simp add: upd c)
  qed
  with d show ?thesis by (auto simp: slot_inv_def list_all_iff)
qed

lemma snd_seq:
  "snd (seq f g pg) = (if fst (f pg) = Returned then snd (g (snd (f pg))) else snd (f pg))"
  by (simp add: seq_def split: prod.splits completion.splits)

lemma stmt_simps: "fst (stmt f pg) = Returned" "snd (stmt f pg) = f pg"
  by (simp_all add: stmt_def)

lemma throw_simps: "fst (throw pg) = Threw" "snd (throw pg) = pg"
  by (simp_all add: throw_def)

lemma slot_inv_createHistogram:
  assumes "slot_inv pg"
  shows "slot_inv (snd (createHistogram d pg))"
proof (cases d)
  case None
  with assms show ?thesis
    by (simp add: createHistogram_def snd_seq stmt_simps throw_simps slot_inv_discard_histogram)
next
  case (Some xs)
  have inv1: "slot_inv (discard_histogram pg)"
    using assms by (rule slot_inv_discard_histogram)
  have empty1: "live_on ''histogramChart'' (discard_histogram pg) = []"
    using assms by (rule live_on_discard_histogram)
  show ?thesis
    by (rule slot_inv_attach [OF inv1 empty1])
      (simp_all add: Some createHistogram_def snd_seq stmt_simps new_Chart_def handle_of_def)
qed


lemma slot_inv_discard_timeSeries: "slot_inv pg \<Longrightarrow> slot_inv (discard_timeSeries pg)"
  by (simp add: discard_timeSeries_def slot_inv_destroy split: option.splits)

lemma live_on_discard_timeSeries:
  assumes "slot_inv pg"
  shows "live_on ''timeSeriesChart'' (discard_timeSeries pg) = []"
proof (cases "timeSeriesChart pg")
  case None
  then have "handle_of ''timeSeriesChart'' pg = None" by (simp add: handle_of_def)
  with assms have "live_on ''timeSeriesChart'' pg = []" by (rule live_on_no_handle)
  with None show ?thesis by (simp add: discard_timeSeries_def)
next
  case (Some h)
  then have "handle_of ''timeSeriesChart'' pg = Some h" by (simp add: handle_of_def)
  with assms have "live_on ''timeSeriesChart'' (destroy h pg) = []" by (rule live_on_destroy)
  with Some show ?thesis by (simp add: discard_timeSeries_def)
qed

lemma slot_inv_createTimeSeries:
  assumes "slot_inv pg"
  shows "slot_inv (snd (createTimeSeries d pg))"
proof (cases d)
  case None
  with assms show ?thesis
    by (simp add: createTimeSeries_def snd_seq stmt_simps throw_simps slot_inv_discard_timeSeries)
next
  case (Some xs)
  have inv1: "slot_inv (discard_timeSeries pg)"
    using assms by (rule slot_inv_discard_timeSeries)
  have empty1: "live_on ''timeSeriesChart'' (discard_timeSeries pg) = []"
    using assms by (rule live_on_discard_timeSeries)
  show ?thesis
    by (rule slot_inv_attach [OF inv1 empty1])
      (simp_all add: Some createTimeSeries_def snd_seq stmt_simps new_Chart_def handle_of_def)
qed

lemma slot_inv_discard_comparison: "slot_inv pg \<Longrightarrow> slot_inv (discard_comparison pg)"
  by (simp add: discard_comparison_def slot_inv_destroy split: option.splits)

lemma live_on_discard_comparison:
  assumes "slot_inv pg"
  shows "live_on ''comparisonChart'' (discard_comparison pg) = []"
proof (cases "comparisonChart pg")
  case None
  then have "handle_of ''comparisonChart'' pg = None" by (simp add: handle_of_def)
  with assms have "live_on ''comparisonChart'' pg = []" by (rule live_on_no_handle)
  with None show ?thesis by (simp add: discard_comparison_def)
next
  case (Some h)
  then have "handle_of ''comparisonChart'' pg = Some h" by (simp add: handle_of_def)
  with assms have "live_on ''comparisonChart'' (destroy h pg) = []" by (rule live_on_destroy)
  with Some show ?thesis by (simp add: discard_comparison_def)
qed

text \<open>A statement that writes none of the chart state keeps the invariant.\<close>

lemma slot_inv_frame:
  assumes "slot_inv pg"
    and "charts pg' = charts pg" "next_chart pg' = next_chart pg"
    "histogramChart pg' = histogramChart pg" "timeSeriesChart pg' = timeSeriesChart pg"
    "comparisonChart pg' = comparisonChart pg"
  shows "slot_inv pg'"
proof -
  have "handle_of cv pg' = handle_of cv pg" for cv
    by (simp add: handle_of_def assms(4-6))
  with assms(1-3) show ?thesis by (simp add: slot_inv_def)
qed

lemma preserves_createComparisonTable: "preserves (createComparisonTable d)"
proof (cases "table_rows d table_head")
  case None
  then show ?thesis by (simp add: createComparisonTable_def preserves_throw)
next
  case (Some html)
  have "preserves (stmt (\<lambda>pg. pg\<lparr>comparisonTable := html @ ''</tbody></table></div>''\<rparr>))"
    by (rule preserves_stmt) (erule slot_inv_frame, simp_all)
  with Some show ?thesis by (simp add: createComparisonTable_def)
qed

lemma snd_seq_stmt: "snd (seq (stmt f) g pg) = snd (g (f pg))"
  by (simp add: seq_def stmt_def)

lemma slot_inv_displayComparison:
  assumes "slot_inv pg"
  shows "slot_inv (snd (displayComparison d pg))"
proof -
  have "slot_inv (pg\<lparr>comparisonResults_display := ''block''\<rparr>)"
    using assms by (rule slot_inv_frame) simp_all
  then have inv2: "slot_inv (discard_comparison (pg\<lparr>comparisonResults_display := ''block''\<rparr>))"
    and empty2: "live_on ''comparisonChart''
                   (discard_comparison (pg\<lparr>comparisonResults_display := ''block''\<rparr>)) = []"
    by (rule slot_inv_discard_comparison, rule live_on_discard_comparison)
  have "\<exists>pg3. snd (displayComparison d pg) = snd (createComparisonTable d pg3) \<and> slot_inv pg3"
    unfolding displayComparison_def snd_seq_stmt
    apply (rule exI, rule conjI, rule refl)
    apply (rule slot_inv_attach [OF inv2 empty2])
       apply (simp_all add: new_Chart_def handle_of_def)
    done
  with preserves_createComparisonTable [of d] show ?thesis
    by (auto simp: preserves_def)
qed

lemma preserves_frame:
  assumes "\<And>pg. charts (f pg) = charts pg \<and> next_chart (f pg) = next_chart pg \<and>
             histogramChart (f pg) = histogramChart pg \<and>
             timeSeriesChart (f pg) = timeSeriesChart pg \<and>
             comparisonChart (f pg) = comparisonChart pg"
  shows "preserves (stmt f)"
proof (rule preserves_stmt)
  fix pg
  assume "slot_inv pg"
  then show "slot_inv (f pg)"
    by (rule slot_inv_frame) (simp_all add: assms)
qed

lemma preserves_option:
  assumes "\<And>v. preserves (g v)"
  shows "preserves (case x of None \<Rightarrow> throw | Some v \<Rightarrow> g v)"
  using assms by (cases x) (simp_all add: preserves_throw)

lemma preserves_displayResults: "preserves (displayResults d)"
  unfolding displayResults_def
  apply (intro preserves_seq)
  subgoal by (rule preserves_frame) simp
  subgoal by (rule preserves_option, rule preserves_frame) simp
  subgoal by (rule preserves_option, rule preserves_frame) simp
  subgoal by (rule preserves_frame) simp
  subgoal by (rule preserves_frame) simp
  subgoal by (rule preserves_option, rule preserves_frame) simp
  subgoal by (rule preserves_frame) simp
  subgoal by (rule preserves_frame) (simp add: updateProbability_def Let_def)
  subgoal by (rule preserves_frame) (simp add: updateProbability_def Let_def)
  subgoal by (rule preserves_frame) (simp add: updateProbability_def Let_def)
  subgoal by (simp add: preserves_def slot_inv_createHistogram)
  subgoal by (simp add: preserves_def slot_inv_createTimeSeries)
  subgoal unfolding generateRecommendations_def by (rule preserves_frame) simp
  done

lemma slot_inv_render: "slot_inv pg \<Longrightarrow> slot_inv (render r pg)"
  using preserves_displayResults
  by (cases r)
    (simp_all add: slot_inv_createHistogram slot_inv_createTimeSeries slot_inv_displayComparison
      preserves_def)

lemma slot_inv_page0: "slot_inv (page0 f)"
  by (simp add: slot_inv_def page0_def)

lemma slot_inv_renders: "slot_inv pg \<Longrightarrow> slot_inv (fold render ops pg)"
  by (induction ops arbitrary: pg) (simp_all add: slot_inv_render)

text \<open>
  C8: after any sequence of render operations from the page as loaded, each canvas carries
  at most one live chart, and the first step of the next render of a slot, which destroys
  the instance its handle holds, leaves the slot empty before the new chart is constructed.
\<close>

theorem one_live_chart_per_slot:
  "length (live_on canvas (fold render ops (page0 f))) \<le> 1 \<and>
   live_on ''histogramChart'' (discard_histogram (fold render ops (page0 f))) = [] \<and>
   live_on ''timeSeriesChart'' (discard_timeSeries (fold render ops (page0 f))) = [] \<and>
   live_on ''comparisonChart'' (discard_comparison (fold render ops (page0 f))) = []"
proof -
  have "slot_inv (fold render ops (page0 f))"
    using slot_inv_page0 by (rule slot_inv_renders)
  then show ?thesis
    using slot_inv_live_on [of "fold render ops (page0 f)" canvas]
    by (simp add: live_on_discard_histogram live_on_discard_timeSeries
        live_on_discard_comparison)
qed

text \<open>A second render of the histogram leaves only the second instance alive.\<close>

lemma second_histogram_replaces_first:
  "map fst (charts (fold render [Histogram (Some [0, 20]), Histogram (Some [5, 5])]
     (page0 example_form))) = [1]"
  by code_simp

text \<open>
  The whole comparison view follows the enumeration order: \<^verbatim>\<open>displayComparison\<close> returns,
  the table holds the rows in that order and the new chart is labelled in that order.
\<close>

lemma displayComparison_in_input_order:
  assumes "\<forall>e \<in> set data. tabulable e"
  shows "fst (displayComparison data pg) = Returned"
    and "comparisonTable (snd (displayComparison data pg)) =
           table_head @ concat (map table_row data) @ ''</tbody></table></div>''"
    and "\<exists>h c. comparisonChart (snd (displayComparison data pg)) = Some h \<and>
           (h, c) \<in> set (charts (snd (displayComparison data pg))) \<and>
           chart_labels c = map (\<lambda>e. Text (fst e)) data"
proof -
  have t: "createComparisonTable data p =
      (Returned, p\<lparr>comparisonTable :=
              table_head @ concat (map table_row data) @ ''</tbody></table></div>''\<rparr>)" for p
    using table_rows_append [OF assms, of table_head]
    by (simp add: createComparisonTable_def stmt_def)
  show "fst (displayComparison data pg) = Returned"
    by (simp add: displayComparison_def seq_def stmt_def t split: prod.splits)
  show "comparisonTable (snd (displayComparison data pg)) =
           table_head @ concat (map table_row data) @ ''</tbody></table></div>''"
    by (simp add: displayComparison_def snd_seq_stmt t)
  show "\<exists>h c. comparisonChart (snd (displayComparison data pg)) = Some h \<and>
           (h, c) \<in> set (charts (snd (displayComparison data pg))) \<and>
           chart_labels c = map (\<lambda>e. Text (fst e)) data"
    apply (simp add: displayComparison_def snd_seq_stmt t new_Chart_def)
    apply (rule exI, rule conjI, rule disjI1, rule refl)
    apply simp
    done
qed

section \<open>Properties of the requests in flight\<close>

lemma unchanged_seq: "unchanged part f \<Longrightarrow> unchanged part g \<Longrightarrow> unchanged part (seq f g)"
  by (auto simp: unchanged_def seq_def split: prod.splits completion.splits) (metis snd_conv)+

lemma unchanged_throw: "unchanged part throw"
  by (simp add: unchanged_def throw_def)

lemma unchanged_stmt: "(\<And>pg. part (f pg) = part pg) \<Longrightarrow> unchanged part (stmt f)"
  by (simp add: unchanged_def stmt_def)

lemma unchanged_option:
  assumes "\<And>v. unchanged part (g v)"
  shows "unchanged part (case x of None \<Rightarrow> throw | Some v \<Rightarrow> g v)"
  using assms by (cases x) (simp_all add: unchanged_throw)

lemma unchanged_createHistogram:
  assumes "\<And>pg f. part (pg\<lparr>charts := f\<rparr>) = part pg"
    "\<And>pg f. part (pg\<lparr>next_chart := f\<rparr>) = part pg"
    "\<And>pg f. part (pg\<lparr>histogramChart := f\<rparr>) = part pg"
  shows "unchanged part (createHistogram d)"
  unfolding createHistogram_def
  apply (intro unchanged_seq unchanged_option unchanged_stmt)
   apply (simp add: discard_histogram_def destroy_def assms split: option.splits)
  apply (simp add: new_Chart_def assms)
  done

lemma unchanged_createTimeSeries:
  assumes "\<And>pg f. part (pg\<lparr>charts := f\<rparr>) = part pg"
    "\<And>pg f. part (pg\<lparr>next_chart := f\<rparr>) = part pg"
    "\<And>pg f. part (pg\<lparr>timeSeriesChart := f\<rparr>) = part pg"
  shows "unchanged part (createTimeSeries d)"
  unfolding createTimeSeries_def
  apply (intro unchanged_seq unchanged_option unchanged_stmt)
   apply (simp add: discard_timeSeries_def destroy_def assms split: option.splits)
  apply (simp add: new_Chart_def assms Let_def)
  done

lemma displayResults_in_flight: "unchanged in_flight (displayResults d)"
  unfolding displayResults_def generateRecommendations_def
  by (intro unchanged_seq unchanged_option unchanged_stmt unchanged_createHistogram
      unchanged_createTimeSeries)
    (simp_all add: updateProbability_def Let_def)

lemma displayResults_btn_disabled: "unchanged btn_disabled (displayResults d)"
  unfolding displayResults_def generateRecommendations_def
  by (intro unchanged_seq unchanged_option unchanged_stmt unchanged_createHistogram
      unchanged_createTimeSeries)
    (simp_all add: updateProbability_def Let_def)

lemma displayResults_alerts: "unchanged alerts (displayResults d)"
  unfolding displayResults_def generateRecommendations_def
  by (intro unchanged_seq unchanged_option unchanged_stmt unchanged_createHistogram
      unchanged_createTimeSeries)
    (simp_all add: updateProbability_def Let_def)


lemma unchanged_createComparisonTable:
  assumes "\<And>pg f. part (pg\<lparr>comparisonTable := f\<rparr>) = part pg"
  shows "unchanged part (createComparisonTable d)"
  by (cases "table_rows d table_head")
    (simp_all add: createComparisonTable_def unchanged_throw unchanged_stmt assms)

lemma unchanged_displayComparison:
  assumes "\<And>pg f. part (pg\<lparr>comparisonTable := f\<rparr>) = part pg"
    "\<And>pg f. part (pg\<lparr>charts := f\<rparr>) = part pg"
    "\<And>pg f. part (pg\<lparr>next_chart := f\<rparr>) = part pg"
    "\<And>pg f. part (pg\<lparr>comparisonChart := f\<rparr>) = part pg"
    "\<And>pg f. part (pg\<lparr>comparisonResults_display := f\<rparr>) = part pg"
  shows "unchanged part (displayComparison d)"
  unfolding displayComparison_def
  apply (intro unchanged_seq unchanged_stmt unchanged_createComparisonTable)
     apply (simp add: assms)
    apply (simp add: discard_comparison_def destroy_def assms split: option.splits)
   apply (simp add: new_Chart_def assms Let_def)
  apply (simp add: assms)
  done

lemma unchangedD: "unchanged part f \<Longrightarrow> part (snd (f pg)) = part pg"
  by (simp add: unchanged_def)

lemma runSimulation_settle_in_flight: "in_flight (runSimulation_settle r pg) = in_flight pg"
proof -
  have "in_flight pg1 = in_flight pg" if "displayResults d pg = (c, pg1)" for d c pg1
    using unchangedD [OF displayResults_in_flight, of d pg] that by simp
  then show ?thesis
    by (cases r)
      (auto simp: runSimulation_settle_def throw_def split: prod.splits completion.splits)
qed

lemma runSimulation_settle_enabled: "btn_disabled (runSimulation_settle r pg) = False"
  by (simp add: runSimulation_settle_def split: prod.splits completion.splits)

lemma compareScenarios_settle_in_flight: "in_flight (compareScenarios_settle r pg) = in_flight pg"
proof -
  have "in_flight pg1 = in_flight pg" if "displayComparison d pg = (c, pg1)" for d c pg1
    using unchangedD [OF unchanged_displayComparison [of in_flight], of d pg] that by simp
  then show ?thesis
    by (cases r)
      (auto simp: compareScenarios_settle_def throw_def split: prod.splits completion.splits)
qed

lemma compareScenarios_settle_btn: "btn_disabled (compareScenarios_settle r pg) = btn_disabled pg"
proof -
  have "btn_disabled pg1 = btn_disabled pg" if "displayComparison d pg = (c, pg1)" for d c pg1
    using unchangedD [OF unchanged_displayComparison [of btn_disabled], of d pg] that by simp
  then show ?thesis
    by (cases r)
      (auto simp: compareScenarios_settle_def throw_def split: prod.splits completion.splits)
qed

lemma filter_remove_only:
  assumes "length (filter P xs) = 1" and "k < length xs" and "P (xs ! k)"
  shows "filter P (take k xs @ drop (Suc k) xs) = []"
proof -
  have "xs = take k xs @ xs ! k # drop (Suc k) xs"
    using assms(2) by (rule id_take_nth_drop)
  then have "filter P xs = filter P (take k xs) @ xs ! k # filter P (drop (Suc k) xs)"
    using assms(3) by (metis filter.simps(2) filter_append)
  with assms(1) show ?thesis by simp
qed

lemma filter_remove_other:
  assumes "k < length xs" and "\<not> P (xs ! k)"
  shows "filter P (take k xs @ drop (Suc k) xs) = filter P xs"
proof -
  have "xs = take k xs @ xs ! k # drop (Suc k) xs"
    using assms(1) by (rule id_take_nth_drop)
  then have "filter P xs = filter P (take k xs) @ filter P (drop (Suc k) xs)"
    using assms(2) by (metis filter.simps(2) filter_append)
  then show ?thesis by simp
qed

lemma run_inv_step:
  assumes "run_inv pg" and "step e pg = Some pg'"
  shows "run_inv pg'"
proof (cases e)
  case (SetInputs f)
  with assms show ?thesis by (auto simp: run_inv_def run_requests_def)
next
  case ClickRun
  with assms have en: "\<not> btn_disabled pg" and pg': "pg' = runSimulation_start pg"
    by (auto split: if_splits)
  from assms(1) en have "run_requests pg = []"
    by (auto simp: run_inv_def split: if_splits)
  then show ?thesis
    by (simp add: pg' run_inv_def run_requests_def runSimulation_start_def Let_def)
next
  case ClickCompare
  with assms have pg': "pg' = compareScenarios_start pg" by simp
  have "run_requests pg' = run_requests pg" "btn_disabled pg' = btn_disabled pg"
    by (simp_all add: pg' run_requests_def compareScenarios_start_def Let_def)
  with assms(1) show ?thesis by (simp add: run_inv_def)
next
  case (SettleRun k r)
  with assms have k: "k < length (in_flight pg)"
    and o: "req_origin (in_flight pg ! k) = RunSimulation"
    and pg': "pg' = runSimulation_settle r (settled k pg)"
    by (auto split: if_splits)
  have "run_requests pg \<noteq> []"
    using k o by (auto simp: run_requests_def filter_empty_conv)
  with assms(1) have "length (run_requests pg) = 1"
    by (auto simp: run_inv_def split: if_splits)
  then have "run_requests (settled k pg) = []"
    using filter_remove_only [of "\<lambda>r. req_origin r = RunSimulation" "in_flight pg" k] k o
    by (simp add: run_requests_def settled_def)
  then show ?thesis
    by (simp add: pg' run_inv_def run_requests_def runSimulation_settle_in_flight)
next
  case (SettleCompare k r)
  with assms have k: "k < length (in_flight pg)"
    and o: "req_origin (in_flight pg ! k) = CompareScenarios"
    and pg': "pg' = compareScenarios_settle r (settled k pg)"
    by (auto split: if_splits)
  have "run_requests (settled k pg) = run_requests pg"
    using filter_remove_other [of k "in_flight pg" "\<lambda>r. req_origin r = RunSimulation"] k o
    by (simp add: run_requests_def settled_def)
  then have "run_requests pg' = run_requests pg"
    by (simp add: pg' run_requests_def compareScenarios_settle_in_flight)
  moreover have "btn_disabled pg' = btn_disabled pg"
    by (simp add: pg' settled_def compareScenarios_settle_btn)
  ultimately show ?thesis
    using assms(1) by (simp add: run_inv_def)
qed

lemma run_inv_run: "run_inv pg \<Longrightarrow> run es pg = Some pg' \<Longrightarrow> run_inv pg'"
proof (induction es arbitrary: pg)
  case Nil
  then show ?case by simp
next
  case (Cons e es)
  from Cons.prems(2) obtain pg1 where s: "step e pg = Some pg1" and r: "run es pg1 = Some pg'"
    by (auto split: option.splits)
  from Cons.prems(1) s have "run_inv pg1" by (rule run_inv_step)
  then show ?case using r by (rule Cons.IH)
qed

text \<open>
  The part of the claim that holds: whatever the interleaving of clicks and settled
  requests, at most one request of \<^verbatim>\<open>runSimulation\<close> is in flight.
\<close>

lemma one_simulation_in_flight:
  assumes "run es (page0 f) = Some pg"
  shows "length (run_requests pg) \<le> 1"
proof -
  have "run_inv (page0 f)" by (simp add: run_inv_def run_requests_def page0_def)
  then have "run_inv pg" using assms by (rule run_inv_run)
  then show ?thesis by (auto simp: run_inv_def split: if_splits)
qed

text \<open>
  C3: the claim asks that at most one simulation or comparison request is in flight,
  because each function disables its triggering control. \<^verbatim>\<open>compareScenarios\<close> disables
  nothing: after two clicks on its control two comparison requests are in flight and the
  button is still enabled, and a comparison started during a simulation is in flight
  together with it.
\<close>

theorem compareScenarios_requests_overlap:
  "map_option traffic (run [ClickCompare, ClickCompare] (page0 example_form)) =
     Some ([''/scenarios/compare'', ''/scenarios/compare''], False) \<and>
   map_option traffic (run [ClickRun, ClickCompare] (page0 example_form)) =
     Some ([''/simulate/enhanced'', ''/scenarios/compare''], True)"
  by (simp add: traffic_def page0_def example_form_def compareScenarios_start_def
      runSimulation_start_def Let_def)

section \<open>Properties of the failure path\<close>

lemma view_after_success:
  "map_option view (run [ClickRun, SettleRun 0 (Parsed example_100)] (page0 example_form)) =
   Some (''block'', ''100.0'', ''2.00'')"
  by code_simp

lemma view_after_partial_payload:
  "map_option view
     (run [ClickRun, SettleRun 0 (Parsed example_100), ClickRun,
           SettleRun 0 (Parsed example_partial)] (page0 example_form)) =
   Some (''block'', ''50.0'', ''2.00'')"
  by code_simp

lemma view_after_rejection:
  "map_option view
     (run [ClickRun, SettleRun 0 (Parsed example_100), ClickRun, SettleRun 0 Rejected]
        (page0 example_form)) =
   Some (''none'', ''100.0'', ''2.00'')"
  by code_simp

text \<open>
  C9 as stated fails on two requests that follow a successful one. After the successful
  simulation the panel is shown with the queue card 100.0 and the
  waiting card 2.00. A second request whose payload carries a queue figure and no waiting
  time fails, yet the panel is shown with the queue card overwritten by 50.0 beside the old
  waiting card; a second request whose transport fails leaves the panel hidden.
\<close>

theorem failed_request_changes_results_view:
  "map_option view (run [ClickRun, SettleRun 0 (Parsed example_100)] (page0 example_form)) =
     Some (''block'', ''100.0'', ''2.00'') \<and>
   map_option view
     (run [ClickRun, SettleRun 0 (Parsed example_100), ClickRun,
           SettleRun 0 (Parsed example_partial)] (page0 example_form)) =
     Some (''block'', ''50.0'', ''2.00'') \<and>
   map_option view
     (run [ClickRun, SettleRun 0 (Parsed example_100), ClickRun, SettleRun 0 Rejected]
        (page0 example_form)) =
     Some (''none'', ''100.0'', ''2.00'')"
  by (intro conjI view_after_success view_after_partial_payload view_after_rejection)

text \<open>
  C9, as amended: for every failing simulation request the failure path clears the
  loading state, enables the button again and raises one failure notice. When the
  transport fails or the body cannot be parsed it changes nothing else, so the results
  panel, hidden when the request started, stays hidden with its contents as they were.
\<close>

theorem failure_path_clears_loading:
  assumes "failed r pg"
  shows "loading_display (runSimulation_settle r pg) = ''none'' \<and>
         btn_disabled (runSimulation_settle r pg) = False \<and>
         alerts (runSimulation_settle r pg) =
           alerts pg @ [''Simulation failed. Please try again.''] \<and>
         (r = Rejected \<or> r = Unparsable \<longrightarrow>
            runSimulation_settle r pg =
              pg\<lparr>alerts := alerts pg @ [''Simulation failed. Please try again.''],
                 loading_display := ''none'', btn_disabled := False,
                 btnText := play_sign @ '' Run Simulation''\<rparr>)"
proof (cases r)
  case Rejected
  then show ?thesis by (simp add: runSimulation_settle_def throw_def)
next
  case Unparsable
  then show ?thesis by (simp add: runSimulation_settle_def throw_def)
next
  case (Parsed d)
  obtain c pg1 where d: "displayResults d pg = (c, pg1)" by (cases "displayResults d pg")
  with assms Parsed have c: "c = Threw" by (simp add: failed_def)
  have "alerts pg1 = alerts pg"
    using unchangedD [OF displayResults_alerts, of d pg] d by simp
  then show ?thesis
    by (simp add: Parsed runSimulation_settle_def d c)
qed

theorem failure_path_clears_loading_witness:
  "failed Rejected (page0 example_form) \<and>
   failed (Parsed example_partial) (page0 example_form) \<and>
   loading_display (runSimulation_settle Rejected (page0 example_form)) = ''none'' \<and>
   results_display (runSimulation_settle Rejected (page0 example_form)) =
     results_display (page0 example_form) \<and>
   loading_display (runSimulation_settle (Parsed example_partial) (page0 example_form)) = ''none'' \<and>
   alerts (runSimulation_settle (Parsed example_partial) (page0 example_form)) =
     [''Simulation failed. Please try again.'']"
proof -
  have h1: "failed Rejected (page0 example_form)" by (simp add: failed_def)
  have h2: "failed (Parsed example_partial) (page0 example_form)"
    by (simp add: failed_def displayResults_def seq_def stmt_def throw_def example_partial_def)
  have a: "alerts (page0 example_form) = []" by (simp add: page0_def)
  from failure_path_clears_loading [OF h1] have
    "runSimulation_settle Rejected (page0 example_form) =
       (page0 example_form)\<lparr>alerts := alerts (page0 example_form) @
            [''Simulation failed. Please try again.''],
          loading_display := ''none'', btn_disabled := False,
          btnText := play_sign @ '' Run Simulation''\<rparr>" by simp
  then have r: "results_display (runSimulation_settle Rejected (page0 example_form)) =
     results_display (page0 example_form)"
    and l: "loading_display (runSimulation_settle Rejected (page0 example_form)) = ''none''"
    by simp_all
  from failure_path_clears_loading [OF h2] h1 h2 r l a show ?thesis by simp
qed

end
